theory Spec2Isabelle
  imports Main
begin

section \<open>The node model read by the range derivation\<close>

text \<open>
  \<^verbatim>\<open>createRangefromOp\<close> (packages/selection/src/utils/op.ts) reads nodes through the
  interface of the model package: \<^verbatim>\<open>getKey\<close>, \<^verbatim>\<open>Text.isText\<close>, \<^verbatim>\<open>Element.isElement\<close>,
  \<^verbatim>\<open>getText\<close>, \<^verbatim>\<open>getComposition\<close>, \<^verbatim>\<open>last\<close>, \<^verbatim>\<open>getChildrenSize\<close>. A node is a closed
  variant over Text and Element. Keys are opaque identifiers; offsets are whole numbers
  (character counts in a Text, child counts in an Element). A string is the sequence of
  its code units, so \<open>length\<close> is the \<^verbatim>\<open>.length\<close> of the source.
\<close>

type_synonym key = nat

type_synonym data = "(string \<times> string) list"

record composition =
  c_text :: string
  c_offset :: int

text \<open>
  Modelled from the spec: the classes Text and Element of the model package are not part
  of the sources at hand. A Text holds a string, a formatting record and an optional
  composition; an Element holds a data record and an ordered sequence of children.
  The selectors carry the names of the methods the source calls.
\<close>

datatype node =
    isText: Text (getKey: key) (getText: string) (getFormat: data)
      (getComposition: "composition option")
  | isElement: Element (getKey: key) (getData: data) (children: "node list")

text \<open>
  Modelled from the spec: the method \<^verbatim>\<open>last()\<close> of an Element is not part of the sources
  at hand. It is the last child, absent when the Element has no children.
\<close>

definition node_last :: "node \<Rightarrow> node option" where
  "node_last n = (case children n of [] \<Rightarrow> None | c # cs \<Rightarrow> Some (last (c # cs)))"

text \<open>
  Modelled from the spec: the method \<^verbatim>\<open>getChildrenSize()\<close> of an Element is not part of
  the sources at hand. It is the number of children.
\<close>

definition getChildrenSize :: "node \<Rightarrow> int" where
  "getChildrenSize n = int (length (children n))"

section \<open>Operations and ranges\<close>

text \<open>
  The serializable value from which \<^verbatim>\<open>createNode\<close> builds a subtree:
  \<^verbatim>\<open>{ text, ...formatting }\<close> for a Text, \<^verbatim>\<open>{ type, children, ...data }\<close> for an Element.
\<close>

datatype node_value =
    TextValue string data
  | ElementValue string "node_value list" data

text \<open>
  The \<^verbatim>\<open>value\<close> field of an operation: the inserted string of InsertText, the node value
  of InsertNode, or nothing.
\<close>

datatype op_value = StringValue string | NodeValue node_value | NoValue

datatype optype =
    OP_UPDATE_FORMAT | OP_UPDATE_DATA | OP_INSERT_TEXT | OP_DELETE_TEXT | OP_INSERT_NODE
  | OP_OTHER

text \<open>
  The argument of \<^verbatim>\<open>createRangefromOp\<close>: an operation together with a reference to its
  target node. The reference may be absent (line 29 of the source tests for it).
\<close>

record op =
  op_type :: optype
  op_offset :: int
  op_value :: op_value
  op_node :: "node option"

text \<open>
  A number of the source, as far as this function meets numbers: a whole number held by
  a double, the not-a-number that \<^verbatim>\<open>offset + undefined\<close> gives, or one of the two
  infinities of an addition that overflows.
\<close>

datatype jsnum = Num int | NaN | PosInfinity | NegInfinity

record range =
  anchorKey :: key
  anchorOffset :: jsnum
  focusKey :: key
  focusOffset :: jsnum

text \<open>
  Modelled from the spec: the class Range (\<^verbatim>\<open>../range\<close>) is not part of the sources at
  hand. \<^verbatim>\<open>new Range(key, offset)\<close> is the collapsed range whose two endpoints are
  \<open>(key, offset)\<close>.
\<close>

definition new_Range2 :: "key \<Rightarrow> jsnum \<Rightarrow> range" where
  "new_Range2 k off =
     \<lparr>anchorKey = k, anchorOffset = off, focusKey = k, focusOffset = off\<rparr>"

text \<open>
  Modelled from the spec: with four arguments, \<^verbatim>\<open>new Range(k1, o1, k2, o2)\<close> runs from the
  anchor \<open>(k1, o1)\<close> to the focus \<open>(k2, o2)\<close>.
\<close>

definition new_Range4 :: "key \<Rightarrow> jsnum \<Rightarrow> key \<Rightarrow> jsnum \<Rightarrow> range" where
  "new_Range4 k1 o1 k2 o2 =
     \<lparr>anchorKey = k1, anchorOffset = o1, focusKey = k2, focusOffset = o2\<rparr>"

text \<open>
  What the call can raise: the TypeError of reading a property of an absent reference,
  and the failure of \<^verbatim>\<open>Log.nodeNotFound(key)\<close>.
\<close>

datatype error = TypeError | NodeNotFound key

text \<open>
  Modelled from the spec: \<^verbatim>\<open>Log.nodeNotFound\<close> of the utils package is not part of the
  sources at hand. It raises the node-not-found failure tagged with the key.
\<close>

definition Log_nodeNotFound :: "key \<Rightarrow> error + 'a" where
  "Log_nodeNotFound k = Inl (NodeNotFound k)"

section \<open>createRangefromOp\<close>

text \<open>
  The \<^verbatim>\<open>+\<close> of lines 20 and 25 adds two doubles. On whole numbers the result is the
  exact sum rounded to the nearest double, a tie going to the even significand, and an
  infinity when the rounded magnitude reaches \<open>2 ^ 1024\<close>. A double keeps 53 binary
  digits: \<open>excess_bits m\<close> is the number \<open>e\<close> of low digits of \<open>m\<close> that do not fit, the
  least \<open>e\<close> with \<open>m div 2 ^ e < 2 ^ 53\<close>. \<open>round_double x\<close> keeps the quotient \<open>q\<close> of
  the magnitude by \<open>2 ^ e\<close> and rounds it up when the remainder \<open>r\<close> is more than half of
  \<open>2 ^ e\<close>, or exactly half with \<open>q\<close> odd.
\<close>

fun excess_bits :: "nat \<Rightarrow> nat" where
  "excess_bits m = (if m < 2 ^ 53 then 0 else Suc (excess_bits (m div 2)))"

definition round_double :: "int \<Rightarrow> jsnum" where
  "round_double x =
     (let m = nat \<bar>x\<bar>;
          e = excess_bits m;
          q = m div 2 ^ e;
          r = m mod 2 ^ e;
          q' = (if 2 ^ e < 2 * r \<or> (2 * r = 2 ^ e \<and> odd q) then Suc q else q);
          y = q' * 2 ^ e
      in if 2 ^ 1024 \<le> y then (if 0 < x then PosInfinity else NegInfinity)
         else Num (sgn x * int y))"

definition js_plus :: "int \<Rightarrow> int \<Rightarrow> jsnum" where
  "js_plus a b = round_double (a + b)"

text \<open>
  \<^verbatim>\<open>offset + value.length\<close> of line 25. Reading \<^verbatim>\<open>.length\<close> of an absent value throws;
  a node value has no such property, and a number plus \<^verbatim>\<open>undefined\<close> is not a number.
\<close>

fun offset_plus_length :: "int \<Rightarrow> op_value \<Rightarrow> error + jsnum" where
  "offset_plus_length off (StringValue s) = Inr (js_plus off (int (length s)))"
| "offset_plus_length off (NodeValue v) = Inr NaN"
| "offset_plus_length off NoValue = Inl TypeError"

text \<open>The local function \<^verbatim>\<open>createRange\<close> of lines 33 to 35.\<close>

definition createRange :: "node \<Rightarrow> range" where
  "createRange textNode =
     new_Range2 (getKey textNode) (Num (int (length (getText textNode))))"

text \<open>
  The loop of lines 39 to 49, entered with the current \<^verbatim>\<open>key\<close>, \<^verbatim>\<open>offset\<close> and \<^verbatim>\<open>child\<close>;
  its value is the range the function returns, either from inside the loop (line 45) or
  from line 53 after the loop has been left. \<^verbatim>\<open>key\<close> and \<^verbatim>\<open>offset\<close> are assigned only
  after the test of line 41.
\<close>

function drill :: "key \<Rightarrow> int \<Rightarrow> node \<Rightarrow> range" where
  "drill k off child =
     (if isElement child then
        (case node_last child of
           None \<Rightarrow> new_Range2 k (Num off)
         | Some l \<Rightarrow>
             if isText l then createRange l
             else drill (getKey child) (getChildrenSize child) l)
      else new_Range2 k (Num off))"
  by pat_completeness auto

termination
proof (relation "measure (\<lambda>(k, off, child). size child)")
  show "wf (measure (\<lambda>(k, off, child). size child))" by simp
next
  fix k :: key and off :: int and child l :: node
  assume el: "isElement child" and la: "node_last child = Some l"
  from el obtain ck d cs where c: "child = Element ck d cs" by (cases child) auto
  from la c have "cs \<noteq> []" and "l = last cs"
    by (auto simp: node_last_def split: list.splits)
  then have "l \<in> set cs" by simp
  then have "size l \<le> size_list size cs" by (simp add: size_list_estimation')
  with c show "((getKey child, getChildrenSize child, l), (k, off, child))
                 \<in> measure (\<lambda>(k, off, child). size child)" by simp
qed

text \<open>
  The function itself. \<open>createNode\<close> stands for the constructor of the model package,
  which is not part of the sources at hand: it builds a node from the operation's value,
  or nothing. The result is an error, or \<open>None\<close> for the bare \<^verbatim>\<open>return\<close> of line 21, or
  the range.
\<close>

definition createRangefromOp :: "(op_value \<Rightarrow> node option) \<Rightarrow> op \<Rightarrow> error + range option"
  where
  "createRangefromOp createNode op =
     (case op_node op of
        None \<Rightarrow> Inl TypeError
      | Some node \<Rightarrow>
          let key = getKey node; offset = op_offset op in
          (case op_type op of
             OP_UPDATE_FORMAT \<Rightarrow>
               if \<not> isText node then Inr (Some (new_Range2 key (Num offset)))
               else Inr (Some (new_Range4 key (Num 0) key (Num (int (length (getText node))))))
           | OP_UPDATE_DATA \<Rightarrow>
               if isText node then
                 (case getComposition node of
                    Some c \<Rightarrow>
                      Inr (Some (new_Range2 key (js_plus (c_offset c) (int (length (c_text c))))))
                  | None \<Rightarrow> Inr None)
               else Inr (Some (new_Range2 key (Num offset)))
           | OP_INSERT_TEXT \<Rightarrow>
               (case offset_plus_length offset (op_value op) of
                  Inl e \<Rightarrow> Inl e
                | Inr n \<Rightarrow> Inr (Some (new_Range2 key n)))
           | OP_DELETE_TEXT \<Rightarrow> Inr (Some (new_Range2 key (Num offset)))
           | OP_INSERT_NODE \<Rightarrow>
               if op_node op = None then Log_nodeNotFound key
               else if isElement node then
                 (case createNode (op_value op) of
                    None \<Rightarrow> Inr (Some (new_Range2 key (Num offset)))
                  | Some child \<Rightarrow>
                      if isText child then Inr (Some (createRange child))
                      else Inr (Some (drill key offset child)))
               else Inr (Some (new_Range2 key (Num offset)))
           | OP_OTHER \<Rightarrow> Inr (Some (new_Range2 key (Num offset)))))"

section \<open>The last-child chain, depth, and the loop with a step budget\<close>

text \<open>
  The nodes the loop of lines 39 to 49 reads, in order: \<^verbatim>\<open>child\<close>, then its last child,
  then the last child of that, until a Text or an Element without a last child.
\<close>

function last_child_chain :: "node \<Rightarrow> node list" where
  "last_child_chain n =
     (if isElement n then
        (case node_last n of None \<Rightarrow> [n] | Some l \<Rightarrow> n # last_child_chain l)
      else [n])"
  by pat_completeness auto

termination
proof (relation "measure size")
  show "wf (measure (size :: node \<Rightarrow> nat))" by simp
next
  fix n l :: node
  assume el: "isElement n" and la: "node_last n = Some l"
  from el obtain k d cs where c: "n = Element k d cs" by (cases n) auto
  from la c have "cs \<noteq> []" and "l = last cs"
    by (auto simp: node_last_def split: list.splits)
  then have "l \<in> set cs" by simp
  then have "size l \<le> size_list size cs" by (simp add: size_list_estimation')
  with c show "(l, n) \<in> measure size" by simp
qed

text \<open>The depth of a subtree: a Text has depth 0, an Element one more than its deepest child.\<close>

fun depth :: "node \<Rightarrow> nat" where
  "depth (Text k s f c) = 0"
| "depth (Element k d cs) = Suc (fold max (map depth cs) 0)"

text \<open>
  The same loop with a budget of evaluations of its condition (line 39): \<open>None\<close> when the
  budget runs out before the loop has produced the range.
\<close>

fun drill_fuel :: "nat \<Rightarrow> key \<Rightarrow> int \<Rightarrow> node \<Rightarrow> range option" where
  "drill_fuel 0 k off child = None"
| "drill_fuel (Suc n) k off child =
     (if isElement child then
        (case node_last child of
           None \<Rightarrow> Some (new_Range2 k (Num off))
         | Some l \<Rightarrow>
             if isText l then Some (createRange l)
             else drill_fuel n (getKey child) (getChildrenSize child) l)
      else Some (new_Range2 k (Num off)))"

section \<open>A constructor of nodes\<close>

text \<open>
  Modelled from the spec: \<^verbatim>\<open>createNode\<close> of the model package is not part of the sources
  at hand. It builds a Text from \<^verbatim>\<open>{ text, ... }\<close> and an Element from
  \<^verbatim>\<open>{ type, children, ... }\<close>, and nothing from a value of another shape. Every node
  gets a key of its own at creation: here the keys are counted up from \<open>k\<close>, the first
  unused key, in document order. \<open>createNode k\<close> is a constructor that can be passed to
  \<open>createRangefromOp\<close>; the theorems below hold for every constructor.
\<close>

fun count_nodes :: "node_value \<Rightarrow> nat" where
  "count_nodes (TextValue s f) = 1"
| "count_nodes (ElementValue t vs d) = Suc (sum_list (map count_nodes vs))"

fun build_node :: "key \<Rightarrow> node_value \<Rightarrow> node"
  and build_nodes :: "key \<Rightarrow> node_value list \<Rightarrow> node list" where
  "build_node k (TextValue s f) = Text k s f None"
| "build_node k (ElementValue t vs d) =
     Element k ((''type'', t) # d) (build_nodes (Suc k) vs)"
| "build_nodes k [] = []"
| "build_nodes k (v # vs) = build_node k v # build_nodes (k + count_nodes v) vs"

fun createNode :: "key \<Rightarrow> op_value \<Rightarrow> node option" where
  "createNode k (NodeValue v) = Some (build_node k v)"
| "createNode k (StringValue s) = None"
| "createNode k NoValue = None"

section \<open>Facts about the addition\<close>

declare excess_bits.simps [simp del]

lemma excess_bits_small: "m < 2 ^ 53 \<Longrightarrow> excess_bits m = 0"
  by (simp add: excess_bits.simps[of m])

lemma excess_bits_large: "\<not> m < 2 ^ 53 \<Longrightarrow> excess_bits m = Suc (excess_bits (m div 2))"
  by (simp add: excess_bits.simps[of m])

lemma round_double_small: "\<bar>x\<bar> < 2 ^ 53 \<Longrightarrow> round_double x = Num x"
proof -
  assume b: "\<bar>x\<bar> < 2 ^ 53"
  then have "nat \<bar>x\<bar> < 2 ^ 53" by simp
  then have e: "excess_bits (nat \<bar>x\<bar>) = 0" by (rule excess_bits_small)
  have "(2::nat) ^ 53 < 2 ^ 1024" by simp
  with \<open>nat \<bar>x\<bar> < 2 ^ 53\<close> have "\<not> 2 ^ 1024 \<le> nat \<bar>x\<bar>" by linarith
  moreover have "sgn x * \<bar>x\<bar> = x" by (simp add: mult_sgn_abs)
  ultimately show ?thesis by (simp add: round_double_def Let_def e)
qed

lemma round_double_2_53: "round_double (2 ^ 53) = Num (2 ^ 53)"
  by (simp add: round_double_def Let_def excess_bits_small excess_bits_large)

lemma round_double_neg_2_53: "round_double (- (2 ^ 53)) = Num (- (2 ^ 53))"
  by (simp add: round_double_def Let_def excess_bits_small excess_bits_large)

lemma round_double_exact: "\<bar>x\<bar> \<le> 2 ^ 53 \<Longrightarrow> round_double x = Num x"
proof -
  assume b: "\<bar>x\<bar> \<le> 2 ^ 53"
  then consider "\<bar>x\<bar> < 2 ^ 53" | "x = 2 ^ 53" | "x = - (2 ^ 53)" by linarith
  then show ?thesis
  proof cases
    case 1
    then show ?thesis by (rule round_double_small)
  next
    case 2
    then show ?thesis by (simp only: round_double_2_53)
  next
    case 3
    then show ?thesis by (simp only: round_double_neg_2_53)
  qed
qed

lemma js_plus_exact: "\<bar>a + b\<bar> \<le> 2 ^ 53 \<Longrightarrow> js_plus a b = Num (a + b)"
  by (simp add: js_plus_def round_double_exact)

text \<open>From \<open>2 ^ 53\<close> on the sum is rounded: \<open>2 ^ 53 + 1\<close> is a tie and goes to \<open>2 ^ 53\<close>.\<close>

lemma js_plus_rounds: "js_plus (2 ^ 53) 1 = Num (2 ^ 53)"
  by (simp add: js_plus_def round_double_def Let_def excess_bits_small excess_bits_large)

text \<open>
  So lines 25 and 20 at an offset of \<open>2 ^ 53\<close> and a string of one character return the
  offset \<open>2 ^ 53\<close>, not \<open>2 ^ 53 + 1\<close>.
\<close>

lemma insert_text_sum_rounded:
  "createRangefromOp cn
     \<lparr>op_type = OP_INSERT_TEXT, op_offset = 2 ^ 53, op_value = StringValue ''a'',
       op_node = Some (Text 1 ''a'' [] None)\<rparr>
   = Inr (Some \<lparr>anchorKey = 1, anchorOffset = Num (2 ^ 53),
                focusKey = 1, focusOffset = Num (2 ^ 53)\<rparr>)"
  using js_plus_rounds by (simp add: createRangefromOp_def Let_def new_Range2_def)

lemma composition_sum_rounded:
  "createRangefromOp cn
     \<lparr>op_type = OP_UPDATE_DATA, op_offset = 0, op_value = NoValue,
       op_node = Some (Text 1 ''a'' [] (Some \<lparr>c_text = ''a'', c_offset = 2 ^ 53\<rparr>))\<rparr>
   = Inr (Some \<lparr>anchorKey = 1, anchorOffset = Num (2 ^ 53),
                focusKey = 1, focusOffset = Num (2 ^ 53)\<rparr>)"
  using js_plus_rounds by (simp add: createRangefromOp_def Let_def new_Range2_def)

section \<open>Facts about the loop\<close>

declare drill.simps [simp del]

declare last_child_chain.simps [simp del]

lemma chain_of_text: "isText l \<Longrightarrow> last_child_chain l = [l]"
  by (cases l) (simp_all add: last_child_chain.simps)

lemma fold_max_ge: "(x::nat) \<in> set xs \<Longrightarrow> x \<le> fold max xs m"
proof -
  assume "x \<in> set xs"
  then have "x \<le> Max (set (m # xs))" by (intro Max_ge) auto
  then show ?thesis by (simp only: Max.set_eq_fold)
qed

lemma node_last_cases:
  assumes "isElement n"
  obtains (empty) k d where "n = Element k d []" "node_last n = None"
  | (last) k d cs l where "n = Element k d cs" "cs \<noteq> []" "l = last cs" "node_last n = Some l"
proof (cases n)
  case (Text k s f c)
  with assms show ?thesis by simp
next
  case (Element k d cs)
  show ?thesis
  proof (cases cs)
    case Nil
    with Element show ?thesis by (intro empty) (simp_all add: node_last_def)
  next
    case (Cons c cs')
    with Element show ?thesis by (intro last[of k d cs "last cs"]) (simp_all add: node_last_def)
  qed
qed

lemma node_last_depth:
  assumes "isElement n" "node_last n = Some l"
  shows "depth l < depth n"
  using assms(1)
proof (cases rule: node_last_cases)
  case (empty k d)
  with assms show ?thesis by simp
next
  case (last k d cs l')
  with assms have "l \<in> set cs" by simp
  then have "depth l \<in> set (map depth cs)" by simp
  then have "depth l \<le> fold max (map depth cs) 0" by (rule fold_max_ge)
  with last show ?thesis by simp
qed

lemma chain_length_le_depth: "length (last_child_chain n) \<le> Suc (depth n)"
proof (induction n rule: last_child_chain.induct)
  case (1 n)
  show ?case
  proof (cases "isElement n")
    case False
    then show ?thesis by (simp add: last_child_chain.simps[of n])
  next
    case el: True
    show ?thesis
    proof (cases "node_last n")
      case None
      with el show ?thesis by (simp add: last_child_chain.simps[of n])
    next
      case (Some l)
      from 1[OF el Some] have "length (last_child_chain l) \<le> Suc (depth l)" .
      moreover from node_last_depth[OF el Some] have "depth l < depth n" .
      ultimately show ?thesis using el Some by (simp add: last_child_chain.simps[of n])
    qed
  qed
qed

lemma drill_fuel_enough:
  "isElement child \<Longrightarrow> depth child \<le> m \<Longrightarrow> drill_fuel m k off child = Some (drill k off child)"
proof (induction m arbitrary: child k off)
  case 0
  then show ?case by (cases child) simp_all
next
  case (Suc m)
  note el = \<open>isElement child\<close>
  show ?case
  proof (cases "node_last child")
    case None
    with el show ?thesis by (simp add: drill.simps[of k off child])
  next
    case (Some l)
    show ?thesis
    proof (cases "isText l")
      case True
      with el Some show ?thesis by (simp add: drill.simps[of k off child])
    next
      case False
      then have ell: "isElement l" by (cases l) simp_all
      from node_last_depth[OF el Some] Suc.prems have "depth l \<le> m" by simp
      from Suc.IH[OF ell this] el Some False show ?thesis
        by (simp add: drill.simps[of k off child])
    qed
  qed
qed

lemma drill_text_leaf:
  "isElement child \<Longrightarrow> isText (last (last_child_chain child)) \<Longrightarrow>
   drill k off child = createRange (last (last_child_chain child))"
proof (induction child arbitrary: k off rule: last_child_chain.induct)
  case (1 n)
  note el = \<open>isElement n\<close>
  show ?case
  proof (cases "node_last n")
    case None
    with el have "last_child_chain n = [n]" by (simp add: last_child_chain.simps[of n])
    with "1.prems" show ?thesis by (cases n) simp_all
  next
    case (Some l)
    with el have ch: "last_child_chain n = n # last_child_chain l"
      by (simp add: last_child_chain.simps[of n])
    have ne: "last_child_chain l \<noteq> []" by (simp add: last_child_chain.simps[of l] split: option.splits)
    show ?thesis
    proof (cases "isText l")
      case True
      then have "last_child_chain l = [l]" by (rule chain_of_text)
      with ch el Some True show ?thesis by (simp add: drill.simps[of k off n])
    next
      case False
      then have ell: "isElement l" by (cases l) simp_all
      from "1.prems"(2) ch ne have "isText (last (last_child_chain l))" by simp
      from "1.IH"[OF el Some ell this] el Some False ch ne show ?thesis
        by (simp add: drill.simps[of k off n])
    qed
  qed
qed

lemma drill_dead_end:
  "last_child_chain child = ns @ e # rest \<Longrightarrow> isElement e \<Longrightarrow> node_last e = None \<Longrightarrow>
   drill k off child =
     (case ns of [] \<Rightarrow> new_Range2 k (Num off)
      | _ # _ \<Rightarrow> new_Range2 (getKey (last ns)) (Num (getChildrenSize (last ns))))"
proof (induction child arbitrary: k off ns rule: last_child_chain.induct)
  case (1 n)
  note e = \<open>isElement e\<close> \<open>node_last e = None\<close>
  show ?case
  proof (cases "isElement n")
    case False
    then have "last_child_chain n = [n]" by (simp add: last_child_chain.simps[of n])
    with "1.prems"(1) have "ns = []" "e = n" by (simp_all add: Cons_eq_append_conv)
    with e False show ?thesis by simp
  next
    case el: True
    show ?thesis
    proof (cases "node_last n")
      case None
      with el have "last_child_chain n = [n]" by (simp add: last_child_chain.simps[of n])
      with "1.prems"(1) have "ns = []" by (simp add: Cons_eq_append_conv)
      with el None show ?thesis by (simp add: drill.simps[of k off n])
    next
      case (Some l)
      with el have ch: "last_child_chain n = n # last_child_chain l"
        by (simp add: last_child_chain.simps[of n])
      with "1.prems"(1) e Some obtain ns' where ns: "ns = n # ns'"
        and chl: "last_child_chain l = ns' @ e # rest"
        by (cases ns) auto
      show ?thesis
      proof (cases "isText l")
        case True
        then have "last_child_chain l = [l]" by (rule chain_of_text)
        with chl have "e = l" by (simp add: Cons_eq_append_conv)
        with True e show ?thesis by (cases l) simp_all
      next
        case False
        from "1.IH"[OF el Some chl e] el Some False ns show ?thesis
          by (simp add: drill.simps[of k off n] split: list.splits)
      qed
    qed
  qed
qed

section \<open>The range after each kind of operation\<close>

text \<open>
  C1, as stated: when the drill-down reaches an Element whose last child does not
  exist, the range is collapsed at that Element's own key and child count. The source
  assigns \<^verbatim>\<open>key\<close> and \<^verbatim>\<open>offset\<close> (lines 42 and 43) only after the test of line 41 has
  found a last child, so this fails: inserting an empty paragraph (key 100) at offset 1 of
  the Element with key 1 gives the range at \<open>(1, 1)\<close>, not at \<open>(100, 0)\<close>.
\<close>

theorem insert_node_dead_end_counterexample:
  "createNode 100 (NodeValue (ElementValue ''paragraph'' [] []))
     = Some (Element 100 [(''type'', ''paragraph'')] [])
   \<and> isElement (Element 100 [(''type'', ''paragraph'')] [])
   \<and> node_last (Element 100 [(''type'', ''paragraph'')] []) = None
   \<and> createRangefromOp (createNode 100)
        \<lparr>op_type = OP_INSERT_NODE, op_offset = 1,
          op_value = NodeValue (ElementValue ''paragraph'' [] []),
          op_node = Some (Element 1 [] [Text 2 ''a'' [] None, Element 3 [(''type'', ''paragraph'')] []])\<rparr>
     = Inr (Some \<lparr>anchorKey = 1, anchorOffset = Num 1, focusKey = 1, focusOffset = Num 1\<rparr>)
   \<and> createRangefromOp (createNode 100)
        \<lparr>op_type = OP_INSERT_NODE, op_offset = 1,
          op_value = NodeValue (ElementValue ''paragraph'' [] []),
          op_node = Some (Element 1 [] [Text 2 ''a'' [] None, Element 3 [(''type'', ''paragraph'')] []])\<rparr>
     \<noteq> Inr (Some \<lparr>anchorKey = getKey (Element 100 [(''type'', ''paragraph'')] []),
                    anchorOffset = Num (getChildrenSize (Element 100 [(''type'', ''paragraph'')] [])),
                    focusKey = getKey (Element 100 [(''type'', ''paragraph'')] []),
                    focusOffset = Num (getChildrenSize (Element 100 [(''type'', ''paragraph'')] []))\<rparr>)"
  by (simp add: createRangefromOp_def Let_def drill.simps node_last_def new_Range2_def
      getChildrenSize_def)

text \<open>
  C1, amended: for an InsertNode operation on an Element target whose value constructs
  an Element subtree, when the drill-down reaches an Element \<open>e\<close> whose last child does
  not exist, the range is collapsed at the key and child count of the Element visited just
  before \<open>e\<close> (its parent in the constructed subtree); when \<open>e\<close> is the constructed
  subtree itself, the range is collapsed at the target node's key and the operation's
  offset.
\<close>

theorem insert_node_dead_end:
  assumes "op_type op = OP_INSERT_NODE" and "op_node op = Some n" and "isElement n"
    and "cn (op_value op) = Some child" and "isElement child"
    and "last_child_chain child = ns @ e # rest"
    and "isElement e" and "node_last e = None"
  shows "createRangefromOp cn op =
           Inr (Some (case ns of
                        [] \<Rightarrow> \<lparr>anchorKey = getKey n, anchorOffset = Num (op_offset op),
                                focusKey = getKey n, focusOffset = Num (op_offset op)\<rparr>
                      | _ # _ \<Rightarrow>
                          \<lparr>anchorKey = getKey (last ns),
                            anchorOffset = Num (getChildrenSize (last ns)),
                            focusKey = getKey (last ns),
                            focusOffset = Num (getChildrenSize (last ns))\<rparr>))"
proof -
  from assms(5) have nt: "\<not> isText child" by (cases child) simp_all
  from drill_dead_end[OF assms(6,7,8), of "getKey n" "op_offset op"] assms(1-4) nt
  show ?thesis
    by (simp add: createRangefromOp_def Let_def new_Range2_def split: list.splits)
qed

theorem insert_node_dead_end_witness:
  "createRangefromOp (createNode 100)
        \<lparr>op_type = OP_INSERT_NODE, op_offset = 1,
          op_value = NodeValue (ElementValue ''paragraph'' [] []),
          op_node = Some (Element 1 [] [Text 2 ''a'' [] None, Element 3 [(''type'', ''paragraph'')] []])\<rparr>
     = Inr (Some \<lparr>anchorKey = 1, anchorOffset = Num 1, focusKey = 1, focusOffset = Num 1\<rparr>)
   \<and> createNode 100 (NodeValue (ElementValue ''div''
          [ElementValue ''p'' [TextValue ''x'' []] [], ElementValue ''p'' [] []] []))
     = Some (Element 100 [(''type'', ''div'')]
              [Element 101 [(''type'', ''p'')] [Text 102 ''x'' [] None],
               Element 103 [(''type'', ''p'')] []])
   \<and> node_last (Element 103 [(''type'', ''p'')] []) = None
   \<and> createRangefromOp (createNode 100)
        \<lparr>op_type = OP_INSERT_NODE, op_offset = 1,
          op_value = NodeValue (ElementValue ''div''
            [ElementValue ''p'' [TextValue ''x'' []] [], ElementValue ''p'' [] []] []),
          op_node = Some (Element 1 [] [Text 2 ''a'' [] None])\<rparr>
     = Inr (Some \<lparr>anchorKey = 100, anchorOffset = Num 2, focusKey = 100, focusOffset = Num 2\<rparr>)"
proof -
  have c1: "last_child_chain (Element 100 [(''type'', ''paragraph'')] [])
              = [] @ Element 100 [(''type'', ''paragraph'')] [] # []"
    by (simp add: last_child_chain.simps node_last_def)
  have c2: "last_child_chain (Element 100 [(''type'', ''div'')]
              [Element 101 [(''type'', ''p'')] [Text 102 ''x'' [] None],
               Element 103 [(''type'', ''p'')] []])
            = [Element 100 [(''type'', ''div'')]
              [Element 101 [(''type'', ''p'')] [Text 102 ''x'' [] None],
               Element 103 [(''type'', ''p'')] []]] @ Element 103 [(''type'', ''p'')] [] # []"
    by (simp add: last_child_chain.simps node_last_def)
  show ?thesis
    using
      insert_node_dead_end
        [of "\<lparr>op_type = OP_INSERT_NODE, op_offset = 1,
          op_value = NodeValue (ElementValue ''paragraph'' [] []),
          op_node = Some (Element 1 [] [Text 2 ''a'' [] None, Element 3 [(''type'', ''paragraph'')] []])\<rparr>"
          "Element 1 [] [Text 2 ''a'' [] None, Element 3 [(''type'', ''paragraph'')] []]"
          "createNode 100" "Element 100 [(''type'', ''paragraph'')] []", OF _ _ _ _ _ c1]
      insert_node_dead_end
        [of "\<lparr>op_type = OP_INSERT_NODE, op_offset = 1,
          op_value = NodeValue (ElementValue ''div''
            [ElementValue ''p'' [TextValue ''x'' []] [], ElementValue ''p'' [] []] []),
          op_node = Some (Element 1 [] [Text 2 ''a'' [] None])\<rparr>"
          "Element 1 [] [Text 2 ''a'' [] None]"
          "createNode 100" _, OF _ _ _ _ _ c2]
    by (simp add: node_last_def getChildrenSize_def)
qed

text \<open>
  C2: an InsertNode operation whose target node reference is absent should raise the
  node-not-found failure tagged with the key. The source reads \<^verbatim>\<open>node.getKey()\<close> at line 8,
  before the test of line 29, so the call fails with a TypeError and the call of
  \<^verbatim>\<open>Log.nodeNotFound\<close> is never reached. Evaluated at such an operation:
\<close>

theorem insert_node_absent_target:
  "createRangefromOp (createNode 100)
     \<lparr>op_type = OP_INSERT_NODE, op_offset = 0,
       op_value = NodeValue (ElementValue ''paragraph'' [TextValue ''Hi'' []] []),
       op_node = None\<rparr> = Inl TypeError"
  by (simp add: createRangefromOp_def Let_def)

text \<open>
  C3: for an InsertNode operation on an Element target whose value constructs a subtree
  whose last-child chain ends in a Text node \<open>t\<close> (the subtree may be \<open>t\<close> itself), the
  range is collapsed at the key of \<open>t\<close> and the length of its text. Inserting a paragraph
  with the single Text child "Hi" gives the range at that Text's key and offset 2.
\<close>

theorem insert_node_text_leaf:
  assumes "op_type op = OP_INSERT_NODE" and "op_node op = Some n" and "isElement n"
    and "cn (op_value op) = Some child"
    and "last (last_child_chain child) = t" and "isText t"
  shows "createRangefromOp cn op =
           Inr (Some \<lparr>anchorKey = getKey t, anchorOffset = Num (int (length (getText t))),
                      focusKey = getKey t, focusOffset = Num (int (length (getText t)))\<rparr>)"
proof (cases "isText child")
  case True
  then have "last_child_chain child = [child]" by (rule chain_of_text)
  with assms(5) have "t = child" by simp
  with assms True show ?thesis
    by (simp add: createRangefromOp_def Let_def createRange_def new_Range2_def)
next
  case False
  then have el: "isElement child" by (cases child) simp_all
  from assms(5,6) have "isText (last (last_child_chain child))" by simp
  from drill_text_leaf[OF el this] assms(5)
  have "drill (getKey n) (op_offset op) child = createRange t" by simp
  with assms False show ?thesis
    by (simp add: createRangefromOp_def Let_def createRange_def new_Range2_def)
qed

theorem insert_node_text_leaf_witness:
  "createNode 100 (NodeValue (ElementValue ''paragraph'' [TextValue ''Hi'' []] []))
     = Some (Element 100 [(''type'', ''paragraph'')] [Text 101 ''Hi'' [] None])
   \<and> last (last_child_chain (Element 100 [(''type'', ''paragraph'')] [Text 101 ''Hi'' [] None]))
     = Text 101 ''Hi'' [] None
   \<and> createRangefromOp (createNode 100)
        \<lparr>op_type = OP_INSERT_NODE, op_offset = 0,
          op_value = NodeValue (ElementValue ''paragraph'' [TextValue ''Hi'' []] []),
          op_node = Some (Element 1 [] [Element 2 [(''type'', ''paragraph'')] [Text 3 ''Hi'' [] None]])\<rparr>
     = Inr (Some \<lparr>anchorKey = 101, anchorOffset = Num 2, focusKey = 101, focusOffset = Num 2\<rparr>)
   \<and> createRangefromOp (createNode 100)
        \<lparr>op_type = OP_INSERT_NODE, op_offset = 0,
          op_value = NodeValue (TextValue ''Hello'' []),
          op_node = Some (Element 1 [] [Text 2 ''Hello'' [] None])\<rparr>
     = Inr (Some \<lparr>anchorKey = 100, anchorOffset = Num 5, focusKey = 100, focusOffset = Num 5\<rparr>)"
proof -
  have c: "last (last_child_chain (Element 100 [(''type'', ''paragraph'')] [Text 101 ''Hi'' [] None]))
     = Text 101 ''Hi'' [] None"
    by (simp add: last_child_chain.simps node_last_def)
  have c2: "last (last_child_chain (Text 100 ''Hello'' [] None)) = Text 100 ''Hello'' [] None"
    by (simp add: last_child_chain.simps)
  show ?thesis
    using c
      insert_node_text_leaf
        [of "\<lparr>op_type = OP_INSERT_NODE, op_offset = 0,
          op_value = NodeValue (ElementValue ''paragraph'' [TextValue ''Hi'' []] []),
          op_node = Some (Element 1 [] [Element 2 [(''type'', ''paragraph'')] [Text 3 ''Hi'' [] None]])\<rparr>"
          "Element 1 [] [Element 2 [(''type'', ''paragraph'')] [Text 3 ''Hi'' [] None]]"
          "createNode 100" "Element 100 [(''type'', ''paragraph'')] [Text 101 ''Hi'' [] None]"
          "Text 101 ''Hi'' [] None", OF _ _ _ _ c]
      insert_node_text_leaf
        [of "\<lparr>op_type = OP_INSERT_NODE, op_offset = 0,
          op_value = NodeValue (TextValue ''Hello'' []),
          op_node = Some (Element 1 [] [Text 2 ''Hello'' [] None])\<rparr>"
          "Element 1 [] [Text 2 ''Hello'' [] None]"
          "createNode 100" "Text 100 ''Hello'' [] None"
          "Text 100 ''Hello'' [] None", OF _ _ _ _ c2]
    by simp
qed

text \<open>
  C4: for an InsertNode operation whose value constructs an Element subtree of depth
  \<open>D\<close>, the drill-down loop terminates: \<open>D\<close> evaluations of its condition are enough
  for it to produce the range that the function returns, and it reads at most \<open>D + 1\<close>
  nodes.
\<close>

theorem drill_down_bounded_by_depth:
  assumes "op_type op = OP_INSERT_NODE" and "op_node op = Some n" and "isElement n"
    and "cn (op_value op) = Some child" and "isElement child" and "depth child = D"
  shows "drill_fuel D (getKey n) (op_offset op) child = Some (drill (getKey n) (op_offset op) child)
         \<and> createRangefromOp cn op = Inr (Some (drill (getKey n) (op_offset op) child))
         \<and> length (last_child_chain child) \<le> D + 1"
proof -
  from assms(5) have nt: "\<not> isText child" by (cases child) simp_all
  from assms(5,6) have "drill_fuel D (getKey n) (op_offset op) child
      = Some (drill (getKey n) (op_offset op) child)"
    by (intro drill_fuel_enough) simp_all
  moreover from assms(1-4) nt
  have "createRangefromOp cn op = Inr (Some (drill (getKey n) (op_offset op) child))"
    by (simp add: createRangefromOp_def Let_def)
  moreover from chain_length_le_depth[of child] assms(6)
  have "length (last_child_chain child) \<le> D + 1" by simp
  ultimately show ?thesis by simp
qed

theorem drill_down_bounded_by_depth_witness:
  "createNode 100 (NodeValue (ElementValue ''div''
          [ElementValue ''p'' [TextValue ''x'' []] [], ElementValue ''p'' [TextValue ''yz'' []] []] []))
     = Some (Element 100 [(''type'', ''div'')]
              [Element 101 [(''type'', ''p'')] [Text 102 ''x'' [] None],
               Element 103 [(''type'', ''p'')] [Text 104 ''yz'' [] None]])
   \<and> depth (Element 100 [(''type'', ''div'')]
              [Element 101 [(''type'', ''p'')] [Text 102 ''x'' [] None],
               Element 103 [(''type'', ''p'')] [Text 104 ''yz'' [] None]]) = 2
   \<and> drill_fuel 2 1 1 (Element 100 [(''type'', ''div'')]
              [Element 101 [(''type'', ''p'')] [Text 102 ''x'' [] None],
               Element 103 [(''type'', ''p'')] [Text 104 ''yz'' [] None]])
     = Some \<lparr>anchorKey = 104, anchorOffset = Num 2, focusKey = 104, focusOffset = Num 2\<rparr>
   \<and> createRangefromOp (createNode 100)
        \<lparr>op_type = OP_INSERT_NODE, op_offset = 1,
          op_value = NodeValue (ElementValue ''div''
            [ElementValue ''p'' [TextValue ''x'' []] [], ElementValue ''p'' [TextValue ''yz'' []] []] []),
          op_node = Some (Element 1 [] [Text 2 ''a'' [] None])\<rparr>
     = Inr (Some \<lparr>anchorKey = 104, anchorOffset = Num 2, focusKey = 104, focusOffset = Num 2\<rparr>)
   \<and> length (last_child_chain (Element 100 [(''type'', ''div'')]
              [Element 101 [(''type'', ''p'')] [Text 102 ''x'' [] None],
               Element 103 [(''type'', ''p'')] [Text 104 ''yz'' [] None]])) = 3"
proof -
  have d: "depth (Element 100 [(''type'', ''div'')]
              [Element 101 [(''type'', ''p'')] [Text 102 ''x'' [] None],
               Element 103 [(''type'', ''p'')] [Text 104 ''yz'' [] None]]) = 2"
    by simp
  have f: "drill_fuel 2 1 1 (Element 100 [(''type'', ''div'')]
              [Element 101 [(''type'', ''p'')] [Text 102 ''x'' [] None],
               Element 103 [(''type'', ''p'')] [Text 104 ''yz'' [] None]])
     = Some \<lparr>anchorKey = 104, anchorOffset = Num 2, focusKey = 104, focusOffset = Num 2\<rparr>"
    by (simp add: numeral_2_eq_2 node_last_def createRange_def new_Range2_def)
  have l: "length (last_child_chain (Element 100 [(''type'', ''div'')]
              [Element 101 [(''type'', ''p'')] [Text 102 ''x'' [] None],
               Element 103 [(''type'', ''p'')] [Text 104 ''yz'' [] None]])) = 3"
    by (simp add: last_child_chain.simps node_last_def)
  show ?thesis
    using d f l
      drill_down_bounded_by_depth
        [of "\<lparr>op_type = OP_INSERT_NODE, op_offset = 1,
          op_value = NodeValue (ElementValue ''div''
            [ElementValue ''p'' [TextValue ''x'' []] [], ElementValue ''p'' [TextValue ''yz'' []] []] []),
          op_node = Some (Element 1 [] [Text 2 ''a'' [] None])\<rparr>"
          "Element 1 [] [Text 2 ''a'' [] None]"
          "createNode 100" _ 2, OF _ _ _ _ _ d]
    by simp
qed

text \<open>
  C5: for an UpdateData operation on a Text node with an active composition, the range
  is collapsed at the node's key and the composition's offset plus the length of its
  text, the sum being that of the source's numbers; it is the exact sum whenever that
  is at most \<open>2 ^ 53\<close> in magnitude. The composition "ni" at offset 3 gives offset 5.
\<close>

theorem update_data_composition_caret:
  assumes "op_type op = OP_UPDATE_DATA" and "op_node op = Some n" and "isText n"
    and "getComposition n = Some c"
  shows "createRangefromOp cn op =
           Inr (Some \<lparr>anchorKey = getKey n,
                      anchorOffset = js_plus (c_offset c) (int (length (c_text c))),
                      focusKey = getKey n,
                      focusOffset = js_plus (c_offset c) (int (length (c_text c)))\<rparr>)
         \<and> (\<bar>c_offset c + int (length (c_text c))\<bar> \<le> 2 ^ 53 \<longrightarrow>
              createRangefromOp cn op =
                Inr (Some \<lparr>anchorKey = getKey n,
                           anchorOffset = Num (c_offset c + int (length (c_text c))),
                           focusKey = getKey n,
                           focusOffset = Num (c_offset c + int (length (c_text c)))\<rparr>))"
  using assms by (simp add: createRangefromOp_def Let_def new_Range2_def js_plus_exact)

theorem update_data_composition_caret_witness:
  "op_type \<lparr>op_type = OP_UPDATE_DATA, op_offset = 0, op_value = NoValue,
             op_node = Some (Text 7 ''abcni'' [] (Some \<lparr>c_text = ''ni'', c_offset = 3\<rparr>))\<rparr>
     = OP_UPDATE_DATA
   \<and> isText (Text 7 ''abcni'' [] (Some \<lparr>c_text = ''ni'', c_offset = 3\<rparr>))
   \<and> getComposition (Text 7 ''abcni'' [] (Some \<lparr>c_text = ''ni'', c_offset = 3\<rparr>))
       = Some \<lparr>c_text = ''ni'', c_offset = 3\<rparr>
   \<and> \<bar>c_offset \<lparr>c_text = ''ni'', c_offset = 3\<rparr>
        + int (length (c_text \<lparr>c_text = ''ni'', c_offset = 3\<rparr>))\<bar> \<le> 2 ^ 53
   \<and> createRangefromOp (createNode 100)
        \<lparr>op_type = OP_UPDATE_DATA, op_offset = 0, op_value = NoValue,
          op_node = Some (Text 7 ''abcni'' [] (Some \<lparr>c_text = ''ni'', c_offset = 3\<rparr>))\<rparr>
       = Inr (Some \<lparr>anchorKey = 7, anchorOffset = Num 5, focusKey = 7, focusOffset = Num 5\<rparr>)"
proof -
  have b: "\<bar>c_offset \<lparr>c_text = ''ni'', c_offset = 3\<rparr>
        + int (length (c_text \<lparr>c_text = ''ni'', c_offset = 3\<rparr>))\<bar> \<le> 2 ^ 53"
    by simp
  show ?thesis
    using b update_data_composition_caret
      [of "\<lparr>op_type = OP_UPDATE_DATA, op_offset = 0, op_value = NoValue,
             op_node = Some (Text 7 ''abcni'' [] (Some \<lparr>c_text = ''ni'', c_offset = 3\<rparr>))\<rparr>"
          "Text 7 ''abcni'' [] (Some \<lparr>c_text = ''ni'', c_offset = 3\<rparr>)"
          "\<lparr>c_text = ''ni'', c_offset = 3\<rparr>" "createNode 100"]
    by (simp add: js_plus_exact)
qed

text \<open>
  C6: for an UpdateFormat operation on a Text node whose text has length \<open>L\<close>, the
  range runs from \<open>(key, 0)\<close> to \<open>(key, L)\<close>.
\<close>

theorem update_format_selects_span:
  assumes "op_type op = OP_UPDATE_FORMAT" and "op_node op = Some n" and "isText n"
    and "length (getText n) = L"
  shows "createRangefromOp cn op =
           Inr (Some \<lparr>anchorKey = getKey n, anchorOffset = Num 0,
                      focusKey = getKey n, focusOffset = Num (int L)\<rparr>)"
  using assms by (simp add: createRangefromOp_def Let_def new_Range4_def)

theorem update_format_selects_span_witness:
  "op_type \<lparr>op_type = OP_UPDATE_FORMAT, op_offset = 2, op_value = NoValue,
             op_node = Some (Text 7 ''Hello'' [(''fontSize'', ''28px'')] None)\<rparr> = OP_UPDATE_FORMAT
   \<and> isText (Text 7 ''Hello'' [(''fontSize'', ''28px'')] None)
   \<and> length (getText (Text 7 ''Hello'' [(''fontSize'', ''28px'')] None)) = 5
   \<and> createRangefromOp (createNode 100)
        \<lparr>op_type = OP_UPDATE_FORMAT, op_offset = 2, op_value = NoValue,
          op_node = Some (Text 7 ''Hello'' [(''fontSize'', ''28px'')] None)\<rparr>
       = Inr (Some \<lparr>anchorKey = 7, anchorOffset = Num 0, focusKey = 7, focusOffset = Num 5\<rparr>)"
  using update_format_selects_span
    [of "\<lparr>op_type = OP_UPDATE_FORMAT, op_offset = 2, op_value = NoValue,
           op_node = Some (Text 7 ''Hello'' [(''fontSize'', ''28px'')] None)\<rparr>"
        "Text 7 ''Hello'' [(''fontSize'', ''28px'')] None" 5 "createNode 100"]
  by simp

text \<open>
  C7: for an InsertText operation with a string value, the range is collapsed at the
  target's key and the operation's offset plus the length of the value, the sum being
  that of the source's numbers; it is the exact sum whenever that is at most \<open>2 ^ 53\<close>
  in magnitude.
\<close>

theorem insert_text_caret:
  assumes "op_type op = OP_INSERT_TEXT" and "op_node op = Some n"
    and "op_value op = StringValue s"
  shows "createRangefromOp cn op =
           Inr (Some \<lparr>anchorKey = getKey n,
                      anchorOffset = js_plus (op_offset op) (int (length s)),
                      focusKey = getKey n,
                      focusOffset = js_plus (op_offset op) (int (length s))\<rparr>)
         \<and> (\<bar>op_offset op + int (length s)\<bar> \<le> 2 ^ 53 \<longrightarrow>
              createRangefromOp cn op =
                Inr (Some \<lparr>anchorKey = getKey n,
                           anchorOffset = Num (op_offset op + int (length s)),
                           focusKey = getKey n,
                           focusOffset = Num (op_offset op + int (length s))\<rparr>))"
  using assms by (simp add: createRangefromOp_def Let_def new_Range2_def js_plus_exact)

theorem insert_text_caret_witness:
  "op_type \<lparr>op_type = OP_INSERT_TEXT, op_offset = 5, op_value = StringValue '' world'',
             op_node = Some (Text 1 ''Hello world'' [] None)\<rparr> = OP_INSERT_TEXT
   \<and> \<bar>(5::int) + int (length '' world'')\<bar> \<le> 2 ^ 53
   \<and> createRangefromOp (createNode 100)
        \<lparr>op_type = OP_INSERT_TEXT, op_offset = 5, op_value = StringValue '' world'',
          op_node = Some (Text 1 ''Hello world'' [] None)\<rparr>
       = Inr (Some \<lparr>anchorKey = 1, anchorOffset = Num 11, focusKey = 1, focusOffset = Num 11\<rparr>)"
proof -
  have b: "\<bar>(5::int) + int (length '' world'')\<bar> \<le> 2 ^ 53" by simp
  show ?thesis
    using b insert_text_caret
      [of "\<lparr>op_type = OP_INSERT_TEXT, op_offset = 5, op_value = StringValue '' world'',
             op_node = Some (Text 1 ''Hello world'' [] None)\<rparr>"
          "Text 1 ''Hello world'' [] None" "'' world''" "createNode 100"]
    by (simp add: js_plus_exact)
qed

text \<open>
  C8: for a DeleteText operation, the range is collapsed at the target's key and the
  operation's offset.
\<close>

theorem delete_text_caret:
  assumes "op_type op = OP_DELETE_TEXT" and "op_node op = Some n"
  shows "createRangefromOp cn op =
           Inr (Some \<lparr>anchorKey = getKey n, anchorOffset = Num (op_offset op),
                      focusKey = getKey n, focusOffset = Num (op_offset op)\<rparr>)"
  using assms by (simp add: createRangefromOp_def Let_def new_Range2_def)

theorem delete_text_caret_witness:
  "op_type \<lparr>op_type = OP_DELETE_TEXT, op_offset = 2, op_value = NoValue,
             op_node = Some (Text 2 ''abf'' [] None)\<rparr> = OP_DELETE_TEXT
   \<and> createRangefromOp (createNode 100)
        \<lparr>op_type = OP_DELETE_TEXT, op_offset = 2, op_value = NoValue,
          op_node = Some (Text 2 ''abf'' [] None)\<rparr>
       = Inr (Some \<lparr>anchorKey = 2, anchorOffset = Num 2, focusKey = 2, focusOffset = Num 2\<rparr>)"
  using delete_text_caret
    [of "\<lparr>op_type = OP_DELETE_TEXT, op_offset = 2, op_value = NoValue,
           op_node = Some (Text 2 ''abf'' [] None)\<rparr>"
        "Text 2 ''abf'' [] None" "createNode 100"]
  by simp

text \<open>
  C9: for an UpdateData operation on a Text node without a composition, the function
  returns no range: the result is neither an error nor the fallback range.
\<close>

theorem update_data_without_composition:
  assumes "op_type op = OP_UPDATE_DATA" and "op_node op = Some n" and "isText n"
    and "getComposition n = None"
  shows "createRangefromOp cn op = Inr None
         \<and> createRangefromOp cn op \<noteq> Inl e
         \<and> createRangefromOp cn op \<noteq> Inr (Some (new_Range2 (getKey n) (Num (op_offset op))))"
  using assms by (simp add: createRangefromOp_def Let_def)

theorem update_data_without_composition_witness:
  "op_type \<lparr>op_type = OP_UPDATE_DATA, op_offset = 4, op_value = NoValue,
             op_node = Some (Text 7 ''abc'' [] None)\<rparr> = OP_UPDATE_DATA
   \<and> isText (Text 7 ''abc'' [] None)
   \<and> getComposition (Text 7 ''abc'' [] None) = None
   \<and> createRangefromOp (createNode 100)
        \<lparr>op_type = OP_UPDATE_DATA, op_offset = 4, op_value = NoValue,
          op_node = Some (Text 7 ''abc'' [] None)\<rparr> = Inr None"
  using update_data_without_composition
    [of "\<lparr>op_type = OP_UPDATE_DATA, op_offset = 4, op_value = NoValue,
           op_node = Some (Text 7 ''abc'' [] None)\<rparr>"
        "Text 7 ''abc'' [] None" "createNode 100"]
  by simp

text \<open>
  C10: an UpdateFormat or UpdateData operation whose target is an Element, and an
  InsertNode operation whose target is a Text, raise no error: the result is the fallback
  range, collapsed at the target's key and the operation's offset.
\<close>

theorem wrong_variant_falls_back:
  assumes "op_node op = Some n"
    and "(op_type op = OP_UPDATE_FORMAT \<and> isElement n)
         \<or> (op_type op = OP_UPDATE_DATA \<and> isElement n)
         \<or> (op_type op = OP_INSERT_NODE \<and> isText n)"
  shows "createRangefromOp cn op =
           Inr (Some \<lparr>anchorKey = getKey n, anchorOffset = Num (op_offset op),
                      focusKey = getKey n, focusOffset = Num (op_offset op)\<rparr>)"
proof (cases n)
  case (Text k s f c)
  with assms show ?thesis by (simp add: createRangefromOp_def Let_def new_Range2_def)
next
  case (Element k d cs)
  with assms show ?thesis by (auto simp add: createRangefromOp_def Let_def new_Range2_def)
qed

theorem wrong_variant_falls_back_witness:
  "createRangefromOp (createNode 100)
     \<lparr>op_type = OP_UPDATE_FORMAT, op_offset = 1, op_value = NoValue,
       op_node = Some (Element 1 [] [Text 2 ''a'' [] None])\<rparr>
     = Inr (Some \<lparr>anchorKey = 1, anchorOffset = Num 1, focusKey = 1, focusOffset = Num 1\<rparr>)
   \<and> createRangefromOp (createNode 100)
     \<lparr>op_type = OP_UPDATE_DATA, op_offset = 1, op_value = NoValue,
       op_node = Some (Element 1 [] [Text 2 ''a'' [] None])\<rparr>
     = Inr (Some \<lparr>anchorKey = 1, anchorOffset = Num 1, focusKey = 1, focusOffset = Num 1\<rparr>)
   \<and> createRangefromOp (createNode 100)
     \<lparr>op_type = OP_INSERT_NODE, op_offset = 3, op_value = NodeValue (TextValue ''Hi'' []),
       op_node = Some (Text 2 ''abc'' [] None)\<rparr>
     = Inr (Some \<lparr>anchorKey = 2, anchorOffset = Num 3, focusKey = 2, focusOffset = Num 3\<rparr>)"
  using
    wrong_variant_falls_back
      [of "\<lparr>op_type = OP_UPDATE_FORMAT, op_offset = 1, op_value = NoValue,
             op_node = Some (Element 1 [] [Text 2 ''a'' [] None])\<rparr>"
          "Element 1 [] [Text 2 ''a'' [] None]" "createNode 100"]
    wrong_variant_falls_back
      [of "\<lparr>op_type = OP_UPDATE_DATA, op_offset = 1, op_value = NoValue,
             op_node = Some (Element 1 [] [Text 2 ''a'' [] None])\<rparr>"
          "Element 1 [] [Text 2 ''a'' [] None]" "createNode 100"]
    wrong_variant_falls_back
      [of "\<lparr>op_type = OP_INSERT_NODE, op_offset = 3, op_value = NodeValue (TextValue ''Hi'' []),
             op_node = Some (Text 2 ''abc'' [] None)\<rparr>"
          "Text 2 ''abc'' [] None" "createNode 100"]
  by simp

end
